theory Spec2Isabelle
  imports Complex_Main
begin

section \<open>Numbers of the data frames\<close>

text \<open>
  The numeric columns of a pandas data frame hold IEEE doubles. The model keeps the special
  values (both infinities and not-a-number) and takes every finite value as an exact real:
  rounding is not modelled, and zero has no sign (every divisor of the simulator is a count
  or a difference of counts, so a zero divisor is the positive zero).
\<close>

datatype fl = Fin real | PInf | NInf | NaN

fun fl_sub :: "fl \<Rightarrow> fl \<Rightarrow> fl" where
  "fl_sub NaN y = NaN"
| "fl_sub x NaN = NaN"
| "fl_sub (Fin a) (Fin b) = Fin (a - b)"
| "fl_sub (Fin a) PInf = NInf"
| "fl_sub (Fin a) NInf = PInf"
| "fl_sub PInf PInf = NaN"
| "fl_sub PInf y = PInf"
| "fl_sub NInf NInf = NaN"
| "fl_sub NInf y = NInf"

fun fl_add :: "fl \<Rightarrow> fl \<Rightarrow> fl" where
  "fl_add NaN y = NaN"
| "fl_add x NaN = NaN"
| "fl_add (Fin a) (Fin b) = Fin (a + b)"
| "fl_add (Fin a) y = y"
| "fl_add PInf NInf = NaN"
| "fl_add PInf y = PInf"
| "fl_add NInf PInf = NaN"
| "fl_add NInf y = NInf"

fun fl_mul :: "fl \<Rightarrow> fl \<Rightarrow> fl" where
  "fl_mul NaN y = NaN"
| "fl_mul x NaN = NaN"
| "fl_mul (Fin a) (Fin b) = Fin (a * b)"
| "fl_mul (Fin a) PInf = (if a = 0 then NaN else if 0 < a then PInf else NInf)"
| "fl_mul (Fin a) NInf = (if a = 0 then NaN else if 0 < a then NInf else PInf)"
| "fl_mul PInf (Fin b) = (if b = 0 then NaN else if 0 < b then PInf else NInf)"
| "fl_mul NInf (Fin b) = (if b = 0 then NaN else if 0 < b then NInf else PInf)"
| "fl_mul PInf PInf = PInf"
| "fl_mul PInf NInf = NInf"
| "fl_mul NInf PInf = NInf"
| "fl_mul NInf NInf = PInf"

text \<open>
  Division of doubles never raises: a finite value over zero is an infinity of the sign of
  the dividend, and zero over zero is not-a-number.
\<close>

fun fl_div :: "fl \<Rightarrow> fl \<Rightarrow> fl" where
  "fl_div NaN y = NaN"
| "fl_div x NaN = NaN"
| "fl_div (Fin a) (Fin b) =
     (if b = 0 then (if a = 0 then NaN else if 0 < a then PInf else NInf)
      else Fin (a / b))"
| "fl_div (Fin a) y = Fin 0"
| "fl_div PInf (Fin b) = (if 0 \<le> b then PInf else NInf)"
| "fl_div NInf (Fin b) = (if 0 \<le> b then NInf else PInf)"
| "fl_div x y = NaN"

fun fl_sqrt :: "fl \<Rightarrow> fl" where
  "fl_sqrt (Fin a) = (if a < 0 then NaN else Fin (sqrt a))"
| "fl_sqrt PInf = PInf"
| "fl_sqrt NInf = NaN"
| "fl_sqrt NaN = NaN"

fun isnan :: "fl \<Rightarrow> bool" where
  "isnan NaN = True"
| "isnan x = False"

definition of_count :: "nat \<Rightarrow> fl" where
  "of_count n = Fin (real n)"

section \<open>The relative error\<close>

definition relative_error :: "fl \<Rightarrow> fl \<Rightarrow> fl" where
  "relative_error estimated truth = fl_div (fl_sub estimated truth) truth"

section \<open>Errors, events and tables\<close>

datatype error = ValueError string | OSError string

record trial_row =
  num_sets :: nat
  estimated_cardinality :: fl
  true_cardinality :: nat

record indexed_row = trial_row +
  run_index :: nat

record raw_row = indexed_row +
  relative_error_col :: fl

record stats =
  mean :: fl
  std :: fl

record agg_row =
  agg_num_sets :: nat
  agg_estimated_cardinality :: stats
  agg_true_cardinality :: stats
  agg_relative_error :: stats

text \<open>
  The calls that the simulator makes to its collaborators, in the order in which it makes
  them. A run returns this list beside its value, so that the order of the calls and the
  arguments of each call can be stated.
\<close>

datatype ('id, 'sk) event =
    CallSetGeneratorFactory
  | CallRandint int int
  | CallSketchFactory int
  | CallAddIds 'sk "'id list"
  | CallNoiser 'sk
  | CallEstimator "'sk list"
  | CallToCsvRaw "raw_row list"
  | CallToCsvAgg "agg_row list"

section \<open>The configuration and the simulator\<close>

record 'sk EstimatorConfig =
  sketch_factory :: "int \<Rightarrow> 'sk"
  estimator :: "'sk list \<Rightarrow> fl"
  noiser :: "('sk \<Rightarrow> 'sk) option"

text \<open>
  A set generator factory takes the random state of the sets and gives the finite sequence
  of identifier collections that iterating the generator yields, with the random state as
  the iteration leaves it. A file handle is what writing a table to it does: \<open>None\<close> when
  the write succeeds, the error when it raises.
\<close>

type_synonym 'a file_handle = "'a \<Rightarrow> error option"

record ('id, 'sk, 'gs, 'rs) Simulator =
  num_runs :: int
  set_generator_factory :: "'gs \<Rightarrow> 'id list list \<times> 'gs"
  estimator_config :: "'sk EstimatorConfig"
  set_random_state :: 'gs
  sketch_random_state :: 'rs
  file_handle_raw :: "raw_row list file_handle option"
  file_handle_agg :: "agg_row list file_handle option"

text \<open>
  The constructor. When a random state is not given, numpy makes one from the entropy of
  the operating system: \<open>fresh_sketch\<close> and \<open>fresh_set\<close> are the states it would make.
\<close>

definition Simulator_init ::
  "int \<Rightarrow> ('gs \<Rightarrow> 'id list list \<times> 'gs) \<Rightarrow> 'sk EstimatorConfig \<Rightarrow>
   'rs option \<Rightarrow> 'gs option \<Rightarrow>
   raw_row list file_handle option \<Rightarrow> agg_row list file_handle option \<Rightarrow>
   'rs \<Rightarrow> 'gs \<Rightarrow> ('id, 'sk, 'gs, 'rs) Simulator" where
  "Simulator_init n factory config sketch_rs set_rs handle_raw handle_agg fresh_sketch fresh_set =
     (let sketch_rs' = (case sketch_rs of None \<Rightarrow> fresh_sketch | Some s \<Rightarrow> s);
          set_rs' = (case set_rs of None \<Rightarrow> fresh_set | Some s \<Rightarrow> s)
      in \<lparr> num_runs = n,
           set_generator_factory = factory,
           estimator_config = config,
           set_random_state = set_rs',
           sketch_random_state = sketch_rs',
           file_handle_raw = handle_raw,
           file_handle_agg = handle_agg \<rparr>)"

section \<open>One run\<close>

text \<open>
  The first loop of \<open>run_one\<close>: for each collection of identifiers, keep it, make a sketch
  with the seed of the run, insert the identifiers, keep the sketch. \<open>add_ids\<close> is the
  method of the sketches; it returns the sketch with the identifiers inserted.
\<close>

fun build_sketches ::
  "'sk EstimatorConfig \<Rightarrow> ('sk \<Rightarrow> 'id list \<Rightarrow> 'sk) \<Rightarrow> int \<Rightarrow> 'id list list \<Rightarrow>
   'sk list \<times> 'id list list \<times> ('id, 'sk) event list \<Rightarrow>
   'sk list \<times> 'id list list \<times> ('id, 'sk) event list" where
  "build_sketches config add_ids seed [] st = st"
| "build_sketches config add_ids seed (campaign_ids # rest) (sketches, actual_ids, evs) =
     (let actual_ids' = actual_ids @ [campaign_ids];
          sketch = sketch_factory config seed;
          sketch' = add_ids sketch campaign_ids
      in build_sketches config add_ids seed rest
           (sketches @ [sketch'], actual_ids',
            evs @ [CallSketchFactory seed, CallAddIds sketch campaign_ids]))"

text \<open>The optional noising: a falsy noiser leaves the sketches as they are.\<close>

definition noise_sketches ::
  "('sk \<Rightarrow> 'sk) option \<Rightarrow> 'sk list \<Rightarrow> 'sk list \<times> ('id, 'sk) event list" where
  "noise_sketches nz sketches =
     (case nz of
        None \<Rightarrow> (sketches, [])
      | Some f \<Rightarrow> (map f sketches, map CallNoiser sketches))"

text \<open>
  The second loop, over the indices \<open>range(len(sketches))\<close>, with the running union and the
  rows so far. \<open>actual_ids\<close> is as long as \<open>sketches\<close>, so the read at \<open>i\<close> is in range.
\<close>

fun estimate_loop ::
  "('sk list \<Rightarrow> fl) \<Rightarrow> 'sk list \<Rightarrow> 'id list list \<Rightarrow> nat list \<Rightarrow>
   'id set \<times> trial_row list \<times> ('id, 'sk) event list \<Rightarrow>
   'id set \<times> trial_row list \<times> ('id, 'sk) event list" where
  "estimate_loop est sketches actual_ids [] st = st"
| "estimate_loop est sketches actual_ids (i # rest) (true_union, metrics, evs) =
     (let estimated = est (take (i + 1) sketches);
          true_union' = true_union \<union> set (actual_ids ! i)
      in estimate_loop est sketches actual_ids rest
           (true_union',
            metrics @ [\<lparr> num_sets = i + 1, estimated_cardinality = estimated,
                         true_cardinality = card true_union' \<rparr>],
            evs @ [CallEstimator (take (i + 1) sketches)]))"

text \<open>
  \<open>randint high\<close> is numpy's draw of an integer below \<open>high\<close>: it gives the integer and the
  random state after the draw.
\<close>

definition run_one ::
  "('sk \<Rightarrow> 'id list \<Rightarrow> 'sk) \<Rightarrow> (int \<Rightarrow> 'rs \<Rightarrow> int \<times> 'rs) \<Rightarrow> ('id, 'sk, 'gs, 'rs) Simulator \<Rightarrow>
   trial_row list \<times> ('id, 'sk, 'gs, 'rs) Simulator \<times> ('id, 'sk) event list" where
  "run_one add_ids randint sim =
     (let (sets, set_rs') = set_generator_factory sim (set_random_state sim);
          (sketch_random_seed, sketch_rs') = randint (2 ^ 32 - 1) (sketch_random_state sim);
          sim' = sim \<lparr> set_random_state := set_rs', sketch_random_state := sketch_rs' \<rparr>;
          evs0 = [CallSetGeneratorFactory, CallRandint (2 ^ 32 - 1) sketch_random_seed];
          (sketches, actual_ids, evs1) =
            build_sketches (estimator_config sim) add_ids sketch_random_seed sets ([], [], evs0);
          (sketches', noise_evs) = noise_sketches (noiser (estimator_config sim)) sketches;
          (true_union, metrics, evs2) =
            estimate_loop (estimator (estimator_config sim)) sketches' actual_ids
              [0..<length sketches'] ({}, [], evs1 @ noise_evs)
      in (metrics, sim', evs2))"

section \<open>All runs\<close>

definition stamp_run_index :: "nat \<Rightarrow> trial_row \<Rightarrow> indexed_row" where
  "stamp_run_index t r =
     \<lparr> num_sets = num_sets r, estimated_cardinality = estimated_cardinality r,
       true_cardinality = true_cardinality r, run_index = t \<rparr>"

text \<open>\<open>range(n)\<close> of Python: empty when \<open>n\<close> is zero or negative.\<close>

definition py_range :: "int \<Rightarrow> nat list" where
  "py_range n = [0..<nat n]"

text \<open>The loop over the runs: run once, set the run index of every row, keep the table.\<close>

fun run_loop ::
  "('sk \<Rightarrow> 'id list \<Rightarrow> 'sk) \<Rightarrow> (int \<Rightarrow> 'rs \<Rightarrow> int \<times> 'rs) \<Rightarrow> nat list \<Rightarrow>
   ('id, 'sk, 'gs, 'rs) Simulator \<times> indexed_row list list \<times> ('id, 'sk) event list \<Rightarrow>
   ('id, 'sk, 'gs, 'rs) Simulator \<times> indexed_row list list \<times> ('id, 'sk) event list" where
  "run_loop add_ids randint [] st = st"
| "run_loop add_ids randint (t # rest) (sim, dfs, evs) =
     (let (df, sim', evs') = run_one add_ids randint sim;
          df' = map (stamp_run_index t) df
      in run_loop add_ids randint rest (sim', dfs @ [df'], evs @ evs'))"

text \<open>
  \<open>pd.concat\<close> of a list of data frames: pandas raises \<open>ValueError\<close> on the empty list, and
  puts the rows of the frames one after the other otherwise, an empty frame giving no row.
\<close>

definition pd_concat :: "'a list list \<Rightarrow> error + 'a list" where
  "pd_concat dfs =
     (if dfs = [] then Inl (ValueError ''No objects to concatenate'') else Inr (concat dfs))"

definition with_relative_error :: "indexed_row \<Rightarrow> raw_row" where
  "with_relative_error r =
     \<lparr> num_sets = num_sets r, estimated_cardinality = estimated_cardinality r,
       true_cardinality = true_cardinality r, run_index = run_index r,
       relative_error_col =
         relative_error (estimated_cardinality r) (of_count (true_cardinality r)) \<rparr>"

subsection \<open>The aggregation of pandas\<close>

text \<open>
  The \<open>mean\<close> and \<open>std\<close> of a pandas group leave the missing values (not-a-number) out, as the
  documentation of both says; \<open>std\<close> divides by the number of values left minus one and is
  not-a-number when at most one value is left.
\<close>

definition fl_sum :: "fl list \<Rightarrow> fl" where
  "fl_sum xs = foldr fl_add xs (Fin 0)"

definition dropna :: "fl list \<Rightarrow> fl list" where
  "dropna xs = filter (\<lambda>x. \<not> isnan x) xs"

definition pd_mean :: "fl list \<Rightarrow> fl" where
  "pd_mean xs =
     (let vs = dropna xs
      in if vs = [] then NaN else fl_div (fl_sum vs) (of_count (length vs)))"

definition pd_std :: "fl list \<Rightarrow> fl" where
  "pd_std xs =
     (let vs = dropna xs; m = pd_mean xs
      in if length vs \<le> 1 then NaN
         else fl_sqrt (fl_div (fl_sum (map (\<lambda>x. fl_mul (fl_sub x m) (fl_sub x m)) vs))
                              (of_count (length vs - 1))))"

definition mean_std :: "fl list \<Rightarrow> stats" where
  "mean_std xs = \<lparr> mean = pd_mean xs, std = pd_std xs \<rparr>"

text \<open>\<open>groupby\<close> gives one group for each value of the key, the keys in increasing order.\<close>

definition group_keys :: "raw_row list \<Rightarrow> nat list" where
  "group_keys df = sort (remdups (map num_sets df))"

definition group_rows :: "raw_row list \<Rightarrow> nat \<Rightarrow> raw_row list" where
  "group_rows df k = filter (\<lambda>r. num_sets r = k) df"

definition aggregate :: "raw_row list \<Rightarrow> agg_row list" where
  "aggregate df =
     map (\<lambda>k. \<lparr> agg_num_sets = k,
                 agg_estimated_cardinality =
                   mean_std (map estimated_cardinality (group_rows df k)),
                 agg_true_cardinality =
                   mean_std (map (\<lambda>r. of_count (true_cardinality r)) (group_rows df k)),
                 agg_relative_error =
                   mean_std (map relative_error_col (group_rows df k)) \<rparr>)
         (group_keys df)"

subsection \<open>Running and aggregating\<close>

text \<open>
  \<open>to_csv\<close> on an optional file handle: nothing is written when there is no handle.
\<close>

definition to_csv ::
  "'a file_handle option \<Rightarrow> ('a \<Rightarrow> ('id, 'sk) event) \<Rightarrow> 'a \<Rightarrow>
   error option \<times> ('id, 'sk) event list" where
  "to_csv handle ev table =
     (case handle of None \<Rightarrow> (None, []) | Some h \<Rightarrow> (h table, [ev table]))"

definition run_all_and_aggregate ::
  "('sk \<Rightarrow> 'id list \<Rightarrow> 'sk) \<Rightarrow> (int \<Rightarrow> 'rs \<Rightarrow> int \<times> 'rs) \<Rightarrow> ('id, 'sk, 'gs, 'rs) Simulator \<Rightarrow>
   (error + raw_row list \<times> agg_row list) \<times> ('id, 'sk, 'gs, 'rs) Simulator \<times>
   ('id, 'sk) event list" where
  "run_all_and_aggregate add_ids randint sim =
     (let (sim', dfs, evs) = run_loop add_ids randint (py_range (num_runs sim)) (sim, [], [])
      in case pd_concat dfs of
           Inl e \<Rightarrow> (Inl e, sim', evs)
         | Inr df0 \<Rightarrow>
             (let df = map with_relative_error df0;
                  df_agg = aggregate df;
                  (raw_failure, raw_evs) = to_csv (file_handle_raw sim') CallToCsvRaw df
              in case raw_failure of
                   Some e \<Rightarrow> (Inl e, sim', evs @ raw_evs)
                 | None \<Rightarrow>
                     (let (agg_failure, agg_evs) =
                            to_csv (file_handle_agg sim') CallToCsvAgg df_agg
                      in case agg_failure of
                           Some e \<Rightarrow> (Inl e, sim', evs @ raw_evs @ agg_evs)
                         | None \<Rightarrow> (Inr (df, df_agg), sim', evs @ raw_evs @ agg_evs))))"

section \<open>What a run computes, stated without the accumulators\<close>

fun expected_rows ::
  "('sk list \<Rightarrow> fl) \<Rightarrow> 'sk list \<Rightarrow> 'id list list \<Rightarrow> 'id set \<Rightarrow> nat list \<Rightarrow> trial_row list" where
  "expected_rows est sketches actual_ids u [] = []"
| "expected_rows est sketches actual_ids u (i # rest) =
     \<lparr> num_sets = i + 1, estimated_cardinality = est (take (i + 1) sketches),
       true_cardinality = card (u \<union> set (actual_ids ! i)) \<rparr>
     # expected_rows est sketches actual_ids (u \<union> set (actual_ids ! i)) rest"

definition generated_sets :: "('id, 'sk, 'gs, 'rs) Simulator \<Rightarrow> 'id list list" where
  "generated_sets sim = fst (set_generator_factory sim (set_random_state sim))"

definition trial_seed :: "(int \<Rightarrow> 'rs \<Rightarrow> int \<times> 'rs) \<Rightarrow> ('id, 'sk, 'gs, 'rs) Simulator \<Rightarrow> int" where
  "trial_seed randint sim = fst (randint (2 ^ 32 - 1) (sketch_random_state sim))"

definition built_sketches ::
  "('sk \<Rightarrow> 'id list \<Rightarrow> 'sk) \<Rightarrow> (int \<Rightarrow> 'rs \<Rightarrow> int \<times> 'rs) \<Rightarrow> ('id, 'sk, 'gs, 'rs) Simulator \<Rightarrow>
   'sk list" where
  "built_sketches add_ids randint sim =
     map (add_ids (sketch_factory (estimator_config sim) (trial_seed randint sim)))
       (generated_sets sim)"

definition final_sketches ::
  "('sk \<Rightarrow> 'id list \<Rightarrow> 'sk) \<Rightarrow> (int \<Rightarrow> 'rs \<Rightarrow> int \<times> 'rs) \<Rightarrow> ('id, 'sk, 'gs, 'rs) Simulator \<Rightarrow>
   'sk list" where
  "final_sketches add_ids randint sim =
     (case noiser (estimator_config sim) of
        None \<Rightarrow> built_sketches add_ids randint sim
      | Some f \<Rightarrow> map f (built_sketches add_ids randint sim))"

definition insertion_events ::
  "('sk \<Rightarrow> 'id list \<Rightarrow> 'sk) \<Rightarrow> (int \<Rightarrow> 'rs \<Rightarrow> int \<times> 'rs) \<Rightarrow> ('id, 'sk, 'gs, 'rs) Simulator \<Rightarrow>
   ('id, 'sk) event list" where
  "insertion_events add_ids randint sim =
     concat (map (\<lambda>c. [CallSketchFactory (trial_seed randint sim),
                        CallAddIds (sketch_factory (estimator_config sim) (trial_seed randint sim)) c])
              (generated_sets sim))"

definition noise_events ::
  "('sk \<Rightarrow> 'id list \<Rightarrow> 'sk) \<Rightarrow> (int \<Rightarrow> 'rs \<Rightarrow> int \<times> 'rs) \<Rightarrow> ('id, 'sk, 'gs, 'rs) Simulator \<Rightarrow>
   ('id, 'sk) event list" where
  "noise_events add_ids randint sim =
     (case noiser (estimator_config sim) of
        None \<Rightarrow> []
      | Some f \<Rightarrow> map CallNoiser (built_sketches add_ids randint sim))"

definition estimate_events ::
  "('sk \<Rightarrow> 'id list \<Rightarrow> 'sk) \<Rightarrow> (int \<Rightarrow> 'rs \<Rightarrow> int \<times> 'rs) \<Rightarrow> ('id, 'sk, 'gs, 'rs) Simulator \<Rightarrow>
   ('id, 'sk) event list" where
  "estimate_events add_ids randint sim =
     map (\<lambda>i. CallEstimator (take (i + 1) (final_sketches add_ids randint sim)))
       [0..<length (generated_sets sim)]"

fun sim_after ::
  "('sk \<Rightarrow> 'id list \<Rightarrow> 'sk) \<Rightarrow> (int \<Rightarrow> 'rs \<Rightarrow> int \<times> 'rs) \<Rightarrow> ('id, 'sk, 'gs, 'rs) Simulator \<Rightarrow>
   nat \<Rightarrow> ('id, 'sk, 'gs, 'rs) Simulator" where
  "sim_after add_ids randint sim 0 = sim"
| "sim_after add_ids randint sim (Suc t) =
     fst (snd (run_one add_ids randint (sim_after add_ids randint sim t)))"

definition trial_table ::
  "('sk \<Rightarrow> 'id list \<Rightarrow> 'sk) \<Rightarrow> (int \<Rightarrow> 'rs \<Rightarrow> int \<times> 'rs) \<Rightarrow> ('id, 'sk, 'gs, 'rs) Simulator \<Rightarrow>
   nat \<Rightarrow> trial_row list" where
  "trial_table add_ids randint sim t = fst (run_one add_ids randint (sim_after add_ids randint sim t))"

definition trial_events ::
  "('sk \<Rightarrow> 'id list \<Rightarrow> 'sk) \<Rightarrow> (int \<Rightarrow> 'rs \<Rightarrow> int \<times> 'rs) \<Rightarrow> ('id, 'sk, 'gs, 'rs) Simulator \<Rightarrow>
   nat \<Rightarrow> ('id, 'sk) event list" where
  "trial_events add_ids randint sim t =
     snd (snd (run_one add_ids randint (sim_after add_ids randint sim t)))"

definition trial_sets ::
  "('sk \<Rightarrow> 'id list \<Rightarrow> 'sk) \<Rightarrow> (int \<Rightarrow> 'rs \<Rightarrow> int \<times> 'rs) \<Rightarrow> ('id, 'sk, 'gs, 'rs) Simulator \<Rightarrow>
   nat \<Rightarrow> 'id list list" where
  "trial_sets add_ids randint sim t = generated_sets (sim_after add_ids randint sim t)"

definition computed_raw ::
  "('sk \<Rightarrow> 'id list \<Rightarrow> 'sk) \<Rightarrow> (int \<Rightarrow> 'rs \<Rightarrow> int \<times> 'rs) \<Rightarrow> ('id, 'sk, 'gs, 'rs) Simulator \<Rightarrow>
   raw_row list" where
  "computed_raw add_ids randint sim =
     map with_relative_error
       (concat (map (\<lambda>t. map (stamp_run_index t) (trial_table add_ids randint sim t))
                  (py_range (num_runs sim))))"

definition compute_events ::
  "('sk \<Rightarrow> 'id list \<Rightarrow> 'sk) \<Rightarrow> (int \<Rightarrow> 'rs \<Rightarrow> int \<times> 'rs) \<Rightarrow> ('id, 'sk, 'gs, 'rs) Simulator \<Rightarrow>
   ('id, 'sk) event list" where
  "compute_events add_ids randint sim =
     concat (map (trial_events add_ids randint sim) (py_range (num_runs sim)))"

definition sink_result ::
  "('sk \<Rightarrow> 'id list \<Rightarrow> 'sk) \<Rightarrow> (int \<Rightarrow> 'rs \<Rightarrow> int \<times> 'rs) \<Rightarrow> ('id, 'sk, 'gs, 'rs) Simulator \<Rightarrow>
   (error + raw_row list \<times> agg_row list) \<times> ('id, 'sk) event list" where
  "sink_result add_ids randint sim =
     (let df = computed_raw add_ids randint sim; df_agg = aggregate df
      in case file_handle_raw sim of
           None \<Rightarrow>
             (case file_handle_agg sim of
                None \<Rightarrow> (Inr (df, df_agg), [])
              | Some ha \<Rightarrow>
                  (case ha df_agg of
                     None \<Rightarrow> (Inr (df, df_agg), [CallToCsvAgg df_agg])
                   | Some e \<Rightarrow> (Inl e, [CallToCsvAgg df_agg])))
         | Some hr \<Rightarrow>
             (case hr df of
                Some e \<Rightarrow> (Inl e, [CallToCsvRaw df])
              | None \<Rightarrow>
                  (case file_handle_agg sim of
                     None \<Rightarrow> (Inr (df, df_agg), [CallToCsvRaw df])
                   | Some ha \<Rightarrow>
                       (case ha df_agg of
                          None \<Rightarrow> (Inr (df, df_agg), [CallToCsvRaw df, CallToCsvAgg df_agg])
                        | Some e \<Rightarrow> (Inl e, [CallToCsvRaw df, CallToCsvAgg df_agg])))))"

section \<open>Concrete simulators\<close>

text \<open>
  An exact sketch keeps the seed it was made with and the identifiers inserted so far; its
  estimator counts the distinct identifiers of the sketches it is given. The noiser puts one
  identifier of its own, \<open>0\<close>, into a sketch. The random state of the sketches is an
  integer, and a draw gives its residue and moves it on by one.
\<close>

definition ex_add_ids :: "int \<times> nat list \<Rightarrow> nat list \<Rightarrow> int \<times> nat list" where
  "ex_add_ids sk ids = (fst sk, snd sk @ ids)"

definition ex_randint :: "int \<Rightarrow> int \<Rightarrow> int \<times> int" where
  "ex_randint high s = (s mod high, s + 1)"

definition ex_estimator :: "(int \<times> nat list) list \<Rightarrow> fl" where
  "ex_estimator sks = of_count (card (set (concat (map snd sks))))"

definition ex_noiser :: "int \<times> nat list \<Rightarrow> int \<times> nat list" where
  "ex_noiser sk = (fst sk, 0 # snd sk)"

definition exact_config :: "(int \<times> nat list) EstimatorConfig" where
  "exact_config =
     \<lparr> sketch_factory = (\<lambda>seed. (seed, [])), estimator = ex_estimator, noiser = None \<rparr>"

definition noised_config :: "(int \<times> nat list) EstimatorConfig" where
  "noised_config =
     \<lparr> sketch_factory = (\<lambda>seed. (seed, [])), estimator = ex_estimator,
       noiser = Some ex_noiser \<rparr>"

text \<open>
  Two generators whose random state counts the runs: the first yields no set in its first
  run and two overlapping sets afterwards, the second yields one empty set in its first run
  and one set of one identifier afterwards.
\<close>

definition overlap_generator :: "nat \<Rightarrow> nat list list \<times> nat" where
  "overlap_generator g = (if g = 0 then [] else [[1, 2], [2, 3]], g + 1)"

definition empty_first_generator :: "nat \<Rightarrow> nat list list \<times> nat" where
  "empty_first_generator g = (if g = 0 then [[]] else [[1]], g + 1)"

definition overlap_sim :: "(nat, int \<times> nat list, nat, int) Simulator" where
  "overlap_sim = Simulator_init 2 overlap_generator exact_config (Some 7) (Some 0) None None 0 0"

definition empty_first_sim :: "(nat, int \<times> nat list, nat, int) Simulator" where
  "empty_first_sim =
     Simulator_init 2 empty_first_generator exact_config (Some 7) (Some 0) None None 0 0"

definition noised_sim :: "(nat, int \<times> nat list, nat, int) Simulator" where
  "noised_sim =
     Simulator_init 1 empty_first_generator noised_config (Some 7) (Some 0) None None 0 0"

definition ok_handle :: "'a file_handle" where
  "ok_handle table = None"

definition failing_handle :: "'a file_handle" where
  "failing_handle table = Some (OSError ''No space left on device'')"

text \<open>
  What a list of events says about the draws and about the seeds given to the sketch
  factory, and the contract of numpy's \<open>randint\<close>: with one argument \<open>high\<close>, the integer
  drawn is at least zero and below \<open>high\<close>.
\<close>

fun randint_calls :: "('id, 'sk) event list \<Rightarrow> (int \<times> int) list" where
  "randint_calls [] = []"
| "randint_calls (CallRandint high seed # evs) = (high, seed) # randint_calls evs"
| "randint_calls (e # evs) = randint_calls evs"

fun factory_seeds :: "('id, 'sk) event list \<Rightarrow> int list" where
  "factory_seeds [] = []"
| "factory_seeds (CallSketchFactory seed # evs) = seed # factory_seeds evs"
| "factory_seeds (e # evs) = factory_seeds evs"





text \<open>
  The statistics in the words of the specification, to be compared with those of pandas:
  the arithmetic mean of a list of values is their sum over their number, and the sample
  standard deviation is the square root of the sum of the squared deviations from that mean
  over the number of values minus one.
\<close>

definition arithmetic_mean :: "fl list \<Rightarrow> fl" where
  "arithmetic_mean xs = fl_div (fl_sum xs) (of_count (length xs))"

definition sample_std :: "fl list \<Rightarrow> fl" where
  "sample_std xs =
     fl_sqrt (fl_div (fl_sum (map (\<lambda>x. fl_mul (fl_sub x (arithmetic_mean xs))
                                                 (fl_sub x (arithmetic_mean xs))) xs))
                     (of_count (length xs - 1)))"

section \<open>The loops in closed form\<close>

lemma build_sketches_eq:
  "build_sketches config add_ids seed sets (sketches, actual_ids, evs) =
     (sketches @ map (add_ids (sketch_factory config seed)) sets,
      actual_ids @ sets,
      evs @ concat (map (\<lambda>c. [CallSketchFactory seed, CallAddIds (sketch_factory config seed) c]) sets))"
  by (induction sets arbitrary: sketches actual_ids evs) (simp_all add: Let_def)

lemma estimate_loop_eq:
  "estimate_loop est sketches actual_ids idx (u, metrics, evs) =
     (u \<union> (\<Union>i\<in>set idx. set (actual_ids ! i)),
      metrics @ expected_rows est sketches actual_ids u idx,
      evs @ map (\<lambda>i. CallEstimator (take (i + 1) sketches)) idx)"
  by (induction idx arbitrary: u metrics evs) (simp_all add: Let_def Un_assoc)

lemma length_expected_rows [simp]:
  "length (expected_rows est sketches actual_ids u idx) = length idx"
  by (induction idx arbitrary: u) simp_all

lemma expected_rows_upt_nth:
  "j < n - k \<Longrightarrow>
   expected_rows est sketches actual_ids u [k..<n] ! j =
     \<lparr> num_sets = k + j + 1, estimated_cardinality = est (take (k + j + 1) sketches),
       true_cardinality = card (u \<union> (\<Union>i\<in>{k..k + j}. set (actual_ids ! i))) \<rparr>"
proof (induction j arbitrary: k u)
  case 0
  then have "[k..<n] = k # [Suc k..<n]" by (simp add: upt_conv_Cons)
  then show ?case by simp
next
  case (Suc j)
  then have e: "[k..<n] = k # [Suc k..<n]" by (simp add: upt_conv_Cons)
  have lt: "j < n - Suc k" using Suc.prems by simp
  have "{k..k + Suc j} = insert k {Suc k..Suc k + j}" by auto
  then have s: "(\<Union>i\<in>{k..k + Suc j}. set (actual_ids ! i)) =
      set (actual_ids ! k) \<union> (\<Union>i\<in>{Suc k..Suc k + j}. set (actual_ids ! i))"
    by simp
  have "expected_rows est sketches actual_ids u [k..<n] ! Suc j =
      expected_rows est sketches actual_ids (u \<union> set (actual_ids ! k)) [Suc k..<n] ! j"
    by (simp add: e)
  also have "\<dots> = \<lparr> num_sets = Suc k + j + 1,
       estimated_cardinality = est (take (Suc k + j + 1) sketches),
       true_cardinality = card ((u \<union> set (actual_ids ! k)) \<union>
          (\<Union>i\<in>{Suc k..Suc k + j}. set (actual_ids ! i))) \<rparr>"
    by (rule Suc.IH [OF lt])
  finally show ?case by (simp only: s Un_assoc) simp
qed

lemma length_final_sketches [simp]:
  "length (final_sketches add_ids randint sim) = length (generated_sets sim)"
  by (simp add: final_sketches_def built_sketches_def split: option.splits)

lemma run_one_eq:
  "run_one add_ids randint sim =
     (expected_rows (estimator (estimator_config sim)) (final_sketches add_ids randint sim)
        (generated_sets sim) {} [0..<length (generated_sets sim)],
      sim \<lparr> set_random_state := snd (set_generator_factory sim (set_random_state sim)),
            sketch_random_state := snd (randint (2 ^ 32 - 1) (sketch_random_state sim)) \<rparr>,
      [CallSetGeneratorFactory, CallRandint (2 ^ 32 - 1) (trial_seed randint sim)]
        @ insertion_events add_ids randint sim
        @ noise_events add_ids randint sim
        @ estimate_events add_ids randint sim)"
  by (cases "noiser (estimator_config sim)")
     (simp_all add: run_one_def split_def Let_def build_sketches_eq estimate_loop_eq
        noise_sketches_def generated_sets_def trial_seed_def built_sketches_def
        final_sketches_def insertion_events_def noise_events_def estimate_events_def)

lemma run_loop_upt:
  "k \<le> n \<Longrightarrow>
   run_loop add_ids randint [k..<n] (sim_after add_ids randint sim k, dfs, evs) =
     (sim_after add_ids randint sim n,
      dfs @ map (\<lambda>t. map (stamp_run_index t) (trial_table add_ids randint sim t)) [k..<n],
      evs @ concat (map (trial_events add_ids randint sim) [k..<n]))"
proof (induction "n - k" arbitrary: k dfs evs)
  case 0
  then show ?case by simp
next
  case (Suc d)
  then have lt: "k < n" and d: "d = n - Suc k" and le: "Suc k \<le> n" by simp_all
  have e: "[k..<n] = k # [Suc k..<n]" using lt by (simp add: upt_conv_Cons)
  obtain df s' ev where r: "run_one add_ids randint (sim_after add_ids randint sim k) = (df, s', ev)"
    by (cases "run_one add_ids randint (sim_after add_ids randint sim k)") auto
  then have s': "s' = sim_after add_ids randint sim (Suc k)"
    and df: "df = trial_table add_ids randint sim k"
    and ev: "ev = trial_events add_ids randint sim k"
    by (simp_all add: trial_table_def trial_events_def)
  have "run_loop add_ids randint [k..<n] (sim_after add_ids randint sim k, dfs, evs) =
      run_loop add_ids randint [Suc k..<n] (s', dfs @ [map (stamp_run_index k) df], evs @ ev)"
    unfolding e by (simp add: r)
  also have "\<dots> = run_loop add_ids randint [Suc k..<n]
        (sim_after add_ids randint sim (Suc k),
         dfs @ [map (stamp_run_index k) (trial_table add_ids randint sim k)],
         evs @ trial_events add_ids randint sim k)"
    by (simp only: s' df ev)
  also have "\<dots> =
      (sim_after add_ids randint sim n,
       (dfs @ [map (stamp_run_index k) (trial_table add_ids randint sim k)])
         @ map (\<lambda>t. map (stamp_run_index t) (trial_table add_ids randint sim t)) [Suc k..<n],
       (evs @ trial_events add_ids randint sim k)
         @ concat (map (trial_events add_ids randint sim) [Suc k..<n]))"
    by (rule Suc.hyps(1) [OF d le])
  finally show ?case by (simp add: e)
qed

lemma run_loop_eq:
  "run_loop add_ids randint (py_range (num_runs sim)) (sim, [], []) =
     (sim_after add_ids randint sim (nat (num_runs sim)),
      map (\<lambda>t. map (stamp_run_index t) (trial_table add_ids randint sim t)) (py_range (num_runs sim)),
      compute_events add_ids randint sim)"
  using run_loop_upt [of 0 "nat (num_runs sim)" add_ids randint sim "[]" "[]"]
  by (simp add: py_range_def compute_events_def)

lemma sim_after_fields [simp]:
  "num_runs (sim_after add_ids randint sim t) = num_runs sim"
  "set_generator_factory (sim_after add_ids randint sim t) = set_generator_factory sim"
  "estimator_config (sim_after add_ids randint sim t) = estimator_config sim"
  "file_handle_raw (sim_after add_ids randint sim t) = file_handle_raw sim"
  "file_handle_agg (sim_after add_ids randint sim t) = file_handle_agg sim"
  by (induction t) (simp_all add: run_one_eq)


lemma run_all_and_aggregate_eq:
  "run_all_and_aggregate add_ids randint sim =
     (if num_runs sim \<le> 0
      then (Inl (ValueError ''No objects to concatenate''), sim, [])
      else (fst (sink_result add_ids randint sim),
            sim_after add_ids randint sim (nat (num_runs sim)),
            compute_events add_ids randint sim @ snd (sink_result add_ids randint sim)))"
proof (cases "num_runs sim \<le> 0")
  case True
  then have "py_range (num_runs sim) = []" by (simp add: py_range_def)
  with True show ?thesis
    by (simp add: run_all_and_aggregate_def pd_concat_def)
next
  case False
  then have "py_range (num_runs sim) \<noteq> []" by (simp add: py_range_def)
  with False show ?thesis
    by (simp add: run_all_and_aggregate_def run_loop_eq pd_concat_def computed_raw_def
          sink_result_def to_csv_def Let_def split: option.splits)
qed

lemma union_of_prefix:
  "j < length xs \<Longrightarrow> (\<Union>i\<in>{0..j}. set (xs ! i)) = \<Union> (set ` set (take (j + 1) xs))"
proof -
  assume j: "j < length xs"
  have "{0..j} = {0..<j + 1}" by auto
  moreover have "(!) xs ` {0..<j + 1} = set (take (j + 1) xs)"
    using j by (intro nth_image) simp
  ultimately show ?thesis by (metis image_image UN_simps(10))
qed

section \<open>Evaluating the concrete simulators\<close>

lemmas ex_defs = overlap_sim_def empty_first_sim_def noised_sim_def Simulator_init_def
  overlap_generator_def empty_first_generator_def exact_config_def noised_config_def
  ex_add_ids_def ex_randint_def ex_estimator_def ex_noiser_def ok_handle_def failing_handle_def

lemmas run_defs = run_all_and_aggregate_def run_one_def py_range_def pd_concat_def
  noise_sketches_def stamp_run_index_def with_relative_error_def relative_error_def of_count_def
  to_csv_def aggregate_def group_keys_def group_rows_def mean_std_def pd_mean_def pd_std_def
  dropna_def fl_sum_def Let_def numeral_2_eq_2 card_insert_if

section \<open>The true cardinality of a run\<close>

text \<open>
  Claim C2. When the generator of a run yields the sets \<open>S1, ..., Sn\<close> in this order, the
  table of \<open>run_one\<close> has \<open>n\<close> rows, and the row at position \<open>i\<close> (counted from zero) has
  \<open>num_sets = i + 1\<close> and, as its true cardinality, the number of distinct identifiers of
  the first \<open>i + 1\<close> sets together, whether or not the sets share identifiers.
\<close>

theorem C2_true_cardinality_is_union_size:
  "length (fst (run_one add_ids randint sim)) = length (generated_sets sim) \<and>
   (\<forall>i<length (generated_sets sim).
      num_sets (fst (run_one add_ids randint sim) ! i) = i + 1 \<and>
      true_cardinality (fst (run_one add_ids randint sim) ! i) =
        card (\<Union> (set ` set (take (i + 1) (generated_sets sim)))))"
proof (intro conjI allI impI)
  show "length (fst (run_one add_ids randint sim)) = length (generated_sets sim)"
    by (simp add: run_one_eq)
next
  fix i assume i: "i < length (generated_sets sim)"
  then have "i < length (generated_sets sim) - 0" by simp
  from expected_rows_upt_nth [OF this, of "estimator (estimator_config sim)"
      "final_sketches add_ids randint sim" "generated_sets sim" "{}"]
  have row: "fst (run_one add_ids randint sim) ! i =
      \<lparr> num_sets = i + 1,
        estimated_cardinality =
          estimator (estimator_config sim) (take (i + 1) (final_sketches add_ids randint sim)),
        true_cardinality = card (\<Union>k\<in>{0..i}. set (generated_sets sim ! k)) \<rparr>"
    by (simp add: run_one_eq)
  show "num_sets (fst (run_one add_ids randint sim) ! i) = i + 1"
    by (simp add: row)
  show "true_cardinality (fst (run_one add_ids randint sim) ! i) =
      card (\<Union> (set ` set (take (i + 1) (generated_sets sim))))"
    using union_of_prefix [OF i] by (simp add: row)
qed

text \<open>
  The second run of the simulator with overlapping sets: the sets are \<open>{1, 2}\<close> and
  \<open>{2, 3}\<close>, and the second row counts the three identifiers of their union.
\<close>

theorem C2_true_cardinality_is_union_size_witness:
  "generated_sets (sim_after ex_add_ids ex_randint overlap_sim 1) = [[1, 2], [2, 3]] \<and>
   length (fst (run_one ex_add_ids ex_randint (sim_after ex_add_ids ex_randint overlap_sim 1))) = 2 \<and>
   num_sets (fst (run_one ex_add_ids ex_randint (sim_after ex_add_ids ex_randint overlap_sim 1)) ! 1) = 2 \<and>
   true_cardinality (fst (run_one ex_add_ids ex_randint (sim_after ex_add_ids ex_randint overlap_sim 1)) ! 1) = 3"
proof -
  have g: "generated_sets (sim_after ex_add_ids ex_randint overlap_sim 1) = [[1, 2], [2, 3]]"
    by (simp add: generated_sets_def ex_defs run_one_def Let_def noise_sketches_def)
  have c: "card (\<Union> (set ` set (take (1 + 1) [[1, 2], [2, 3 :: nat]]))) = 3"
    by (simp add: card_insert_if)
  from C2_true_cardinality_is_union_size
    [of ex_add_ids ex_randint "sim_after ex_add_ids ex_randint overlap_sim 1"]
  show ?thesis unfolding g using c by simp
qed

section \<open>A simulator of no run\<close>

text \<open>
  Claim C10. The constructor takes \<open>num_runs = 0\<close> as it is, and
  \<open>run_all_and_aggregate\<close> on such a simulator raises: the list of the tables of the runs is
  empty and \<open>pd.concat\<close> refuses it. No run is made and nothing is written.
\<close>

theorem C10_zero_runs_raise:
  "num_runs (Simulator_init 0 factory config sketch_rs set_rs handle_raw handle_agg
       fresh_sketch fresh_set) = 0 \<and>
   run_all_and_aggregate add_ids randint
     (Simulator_init 0 factory config sketch_rs set_rs handle_raw handle_agg
        fresh_sketch fresh_set) =
     (Inl (ValueError ''No objects to concatenate''),
      Simulator_init 0 factory config sketch_rs set_rs handle_raw handle_agg
        fresh_sketch fresh_set, [])"
  by (simp add: run_all_and_aggregate_eq) (simp add: Simulator_init_def)

section \<open>The seed of a run\<close>

lemma randint_calls_append [simp]:
  "randint_calls (xs @ ys) = randint_calls xs @ randint_calls ys"
  by (induction xs rule: randint_calls.induct) simp_all

lemma factory_seeds_append [simp]:
  "factory_seeds (xs @ ys) = factory_seeds xs @ factory_seeds ys"
  by (induction xs rule: factory_seeds.induct) simp_all







section \<open>Noising\<close>

lemma estimates_of_expected_rows:
  "map estimated_cardinality (expected_rows est sketches actual_ids u idx) =
     map (\<lambda>i. est (take (i + 1) sketches)) idx"
  by (induction idx arbitrary: u) simp_all

text \<open>
  Claim C7. The calls of a run come in this order: the generator and the draw of the seed,
  then for each set the making of its sketch and the insertion of its identifiers, then,
  when a noiser is configured, one call of the noiser for each finished sketch, then the
  calls of the estimator. The estimator is given prefixes of the list of noised sketches
  when a noiser is configured and of the finished sketches themselves otherwise, and each
  estimated cardinality is its value on a prefix.
\<close>

theorem C7_noiser_after_insertions:
  "snd (snd (run_one add_ids randint sim)) =
     [CallSetGeneratorFactory, CallRandint (2 ^ 32 - 1) (trial_seed randint sim)]
     @ concat (map (\<lambda>ids. [CallSketchFactory (trial_seed randint sim),
                            CallAddIds (sketch_factory (estimator_config sim)
                                          (trial_seed randint sim)) ids])
                  (generated_sets sim))
     @ (case noiser (estimator_config sim) of
          None \<Rightarrow> []
        | Some f \<Rightarrow> map CallNoiser (built_sketches add_ids randint sim))
     @ map (\<lambda>i. CallEstimator (take (i + 1) (final_sketches add_ids randint sim)))
         [0..<length (generated_sets sim)] \<and>
   built_sketches add_ids randint sim =
     map (add_ids (sketch_factory (estimator_config sim) (trial_seed randint sim)))
       (generated_sets sim) \<and>
   final_sketches add_ids randint sim =
     (case noiser (estimator_config sim) of
        None \<Rightarrow> built_sketches add_ids randint sim
      | Some f \<Rightarrow> map f (built_sketches add_ids randint sim)) \<and>
   map estimated_cardinality (fst (run_one add_ids randint sim)) =
     map (\<lambda>i. estimator (estimator_config sim)
                 (take (i + 1) (final_sketches add_ids randint sim)))
       [0..<length (generated_sets sim)]"
  by (simp add: run_one_eq insertion_events_def noise_events_def estimate_events_def
        estimates_of_expected_rows built_sketches_def final_sketches_def)

text \<open>
  The noised simulator: its one set is empty, the noiser is called on the finished sketch
  and the estimator sees the noised sketch only.
\<close>

theorem C7_noiser_after_insertions_witness:
  "snd (snd (run_one ex_add_ids ex_randint noised_sim)) =
     [CallSetGeneratorFactory, CallRandint 4294967295 7,
      CallSketchFactory 7, CallAddIds (7, []) [],
      CallNoiser (7, []),
      CallEstimator [(7, [0])]] \<and>
   map estimated_cardinality (fst (run_one ex_add_ids ex_randint noised_sim)) = [Fin 1]"
proof -
  have g: "generated_sets noised_sim = [[]]"
    by (simp add: generated_sets_def noised_sim_def Simulator_init_def
          empty_first_generator_def)
  have s: "trial_seed ex_randint noised_sim = 7"
    by (simp add: trial_seed_def noised_sim_def Simulator_init_def ex_randint_def)
  have c: "estimator_config noised_sim = noised_config"
    by (simp add: noised_sim_def Simulator_init_def)
  have b: "built_sketches ex_add_ids ex_randint noised_sim = [(7, [])]"
    by (simp add: built_sketches_def g s c noised_config_def ex_add_ids_def)
  have f: "final_sketches ex_add_ids ex_randint noised_sim = [(7, [0])]"
    by (simp add: final_sketches_def b c noised_config_def ex_noiser_def)
  from C7_noiser_after_insertions [of ex_add_ids ex_randint noised_sim]
  show ?thesis
    unfolding g s b f c
    by (simp add: noised_config_def ex_estimator_def of_count_def)
qed

section \<open>What \<open>run_all_and_aggregate\<close> returns\<close>

lemma run_all_returns:
  assumes "fst (run_all_and_aggregate add_ids randint sim) = Inr (df, df_agg)"
  shows "0 < num_runs sim" and "df = computed_raw add_ids randint sim"
    and "df_agg = aggregate df"
proof -
  show pos: "0 < num_runs sim"
    using assms by (auto simp: run_all_and_aggregate_eq split: if_splits)
  then have "fst (sink_result add_ids randint sim) = Inr (df, df_agg)"
    using assms by (simp add: run_all_and_aggregate_eq)
  then have "df = computed_raw add_ids randint sim \<and> df_agg = aggregate df"
    by (auto simp: sink_result_def Let_def split: option.splits)
  then show "df = computed_raw add_ids randint sim" and "df_agg = aggregate df"
    by simp_all
qed

lemma num_sets_of_expected_rows:
  "map num_sets (expected_rows est sketches actual_ids u idx) = map (\<lambda>i. i + 1) idx"
  by (induction idx arbitrary: u) simp_all

lemma length_trial_table [simp]:
  "length (trial_table add_ids randint sim t) = length (trial_sets add_ids randint sim t)"
  by (simp add: trial_table_def trial_sets_def run_one_eq)

lemma num_sets_of_trial_table:
  "map num_sets (trial_table add_ids randint sim t) =
     map (\<lambda>i. i + 1) [0..<length (trial_sets add_ids randint sim t)]"
  by (simp add: trial_table_def trial_sets_def run_one_eq num_sets_of_expected_rows)

lemma computed_raw_eq:
  "computed_raw add_ids randint sim =
     concat (map (\<lambda>t. map (\<lambda>r. with_relative_error (stamp_run_index t r))
                         (trial_table add_ids randint sim t))
               [0..<nat (num_runs sim)])"
  by (simp add: computed_raw_def py_range_def map_concat comp_def)

lemma indices_of_computed_raw:
  "map (\<lambda>r. (run_index r, num_sets r)) (computed_raw add_ids randint sim) =
     concat (map (\<lambda>t. map (\<lambda>i. (t, i + 1)) [0..<length (trial_sets add_ids randint sim t)])
               [0..<nat (num_runs sim)])"
proof -
  have "map (\<lambda>r. (run_index r, num_sets r))
          (map (\<lambda>r. with_relative_error (stamp_run_index t r))
             (trial_table add_ids randint sim t)) =
        map (\<lambda>i. (t, i + 1)) [0..<length (trial_sets add_ids randint sim t)]" for t
  proof -
    have "map (\<lambda>r. (run_index r, num_sets r))
          (map (\<lambda>r. with_relative_error (stamp_run_index t r))
             (trial_table add_ids randint sim t)) =
        map (\<lambda>k. (t, k)) (map num_sets (trial_table add_ids randint sim t))"
      by (simp add: with_relative_error_def stamp_run_index_def comp_def)
    then show ?thesis by (simp add: num_sets_of_trial_table comp_def)
  qed
  then show ?thesis
    by (simp add: computed_raw_eq map_concat comp_def)
qed

lemma length_computed_raw:
  "length (computed_raw add_ids randint sim) =
     sum_list (map (\<lambda>t. length (trial_sets add_ids randint sim t)) [0..<nat (num_runs sim)])"
  by (simp add: computed_raw_eq length_concat comp_def)

lemma run_indices_of_computed_raw:
  "run_index ` set (computed_raw add_ids randint sim) =
     {t. t < nat (num_runs sim) \<and> trial_sets add_ids randint sim t \<noteq> []}"
proof -
  let ?n = "nat (num_runs sim)"
  let ?len = "\<lambda>t. length (trial_sets add_ids randint sim t)"
  have "run_index ` set (computed_raw add_ids randint sim) =
        fst ` set (map (\<lambda>r. (run_index r, num_sets r)) (computed_raw add_ids randint sim))"
    by (simp add: image_image)
  also have "\<dots> = fst ` (\<Union>t\<in>{0..<?n}. (\<lambda>i. (t, i + 1)) ` {0..<?len t})"
    unfolding indices_of_computed_raw by simp
  also have "\<dots> = (\<Union>t\<in>{0..<?n}. if 0 < ?len t then {t} else {})"
  proof -
    have "fst ` (\<lambda>i. (t, i + 1)) ` {0..<?len t} = (if 0 < ?len t then {t} else {})" for t
    proof (cases "0 < ?len t")
      case True
      then have "{0..<?len t} \<noteq> {}" by simp
      then have "(\<lambda>i. t) ` {0..<?len t} = {t}" by (simp add: image_constant_conv)
      with True show ?thesis by (simp add: image_image)
    next
      case False
      then show ?thesis by simp
    qed
    then show ?thesis by (simp add: image_UN)
  qed
  also have "\<dots> = {t. t < ?n \<and> trial_sets add_ids randint sim t \<noteq> []}"
    by (auto split: if_splits)
  finally show ?thesis .
qed

lemma run_one_handles:
  "run_one add_ids randint (sim \<lparr> file_handle_raw := a, file_handle_agg := b \<rparr>) =
     (fst (run_one add_ids randint sim),
      (fst (snd (run_one add_ids randint sim))) \<lparr> file_handle_raw := a, file_handle_agg := b \<rparr>,
      snd (snd (run_one add_ids randint sim)))"
  by (simp add: run_one_def split_def Let_def)

lemma sim_after_handles:
  "sim_after add_ids randint (sim \<lparr> file_handle_raw := a, file_handle_agg := b \<rparr>) t =
     (sim_after add_ids randint sim t) \<lparr> file_handle_raw := a, file_handle_agg := b \<rparr>"
  by (induction t) (simp_all add: run_one_handles)

lemma computed_raw_handles:
  "computed_raw add_ids randint (sim \<lparr> file_handle_raw := a, file_handle_agg := b \<rparr>) =
     computed_raw add_ids randint sim"
  by (simp add: computed_raw_def trial_table_def sim_after_handles run_one_handles)





lemma overlap_sim_result:
  "fst (run_all_and_aggregate ex_add_ids ex_randint overlap_sim) =
     Inr ([\<lparr> num_sets = 1, estimated_cardinality = Fin 2, true_cardinality = 2,
              run_index = 1, relative_error_col = Fin 0 \<rparr>,
           \<lparr> num_sets = 2, estimated_cardinality = Fin 3, true_cardinality = 3,
              run_index = 1, relative_error_col = Fin 0 \<rparr>],
          [\<lparr> agg_num_sets = 1,
              agg_estimated_cardinality = \<lparr> mean = Fin 2, std = NaN \<rparr>,
              agg_true_cardinality = \<lparr> mean = Fin 2, std = NaN \<rparr>,
              agg_relative_error = \<lparr> mean = Fin 0, std = NaN \<rparr> \<rparr>,
           \<lparr> agg_num_sets = 2,
              agg_estimated_cardinality = \<lparr> mean = Fin 3, std = NaN \<rparr>,
              agg_true_cardinality = \<lparr> mean = Fin 3, std = NaN \<rparr>,
              agg_relative_error = \<lparr> mean = Fin 0, std = NaN \<rparr> \<rparr>])"
  by (simp add: ex_defs run_defs)


section \<open>The relative error of the rows\<close>




section \<open>Two simulators with the same seeds\<close>

text \<open>
  Claim C3. Two simulators made by the constructor with the same number of runs, the same
  generator factory, the same estimator configuration and the same two explicit random
  states, whatever their file handles and whatever random states the operating system would
  have given, return the same raw table and the same aggregated table, when both return.
  The collaborators are functions here, so each of them is deterministic.
\<close>

theorem C3_same_seeds_same_raw_table:
  assumes "fst (run_all_and_aggregate add_ids randint
                  (Simulator_init n factory config (Some sketch_rs) (Some set_rs)
                     handle_raw handle_agg fresh_sketch fresh_set)) = Inr (df, df_agg)"
    and "fst (run_all_and_aggregate add_ids randint
                  (Simulator_init n factory config (Some sketch_rs) (Some set_rs)
                     handle_raw' handle_agg' fresh_sketch' fresh_set')) = Inr (df', df_agg')"
  shows "df = df' \<and> df_agg = df_agg'"
proof -
  let ?sim = "Simulator_init n factory config (Some sketch_rs) (Some set_rs)
                handle_raw handle_agg fresh_sketch fresh_set"
  have "Simulator_init n factory config (Some sketch_rs) (Some set_rs)
          handle_raw' handle_agg' fresh_sketch' fresh_set' =
        ?sim \<lparr> file_handle_raw := handle_raw', file_handle_agg := handle_agg' \<rparr>"
    by (simp add: Simulator_init_def)
  with assms(2) have "df' = computed_raw add_ids randint ?sim" and a': "df_agg' = aggregate df'"
    using run_all_returns(2,3) [OF assms(2)] by (simp_all add: computed_raw_handles)
  moreover have "df = computed_raw add_ids randint ?sim" and "df_agg = aggregate df"
    using run_all_returns(2,3) [OF assms(1)] by simp_all
  ultimately show ?thesis by simp
qed

theorem C3_same_seeds_same_raw_table_witness:
  "fst (run_all_and_aggregate ex_add_ids ex_randint
          (Simulator_init 1 empty_first_generator noised_config (Some 7) (Some 0)
             None None 0 0)) =
     Inr ([\<lparr> num_sets = 1, estimated_cardinality = Fin 1, true_cardinality = 0,
              run_index = 0, relative_error_col = PInf \<rparr>],
          [\<lparr> agg_num_sets = 1,
              agg_estimated_cardinality = \<lparr> mean = Fin 1, std = NaN \<rparr>,
              agg_true_cardinality = \<lparr> mean = Fin 0, std = NaN \<rparr>,
              agg_relative_error = \<lparr> mean = PInf, std = NaN \<rparr> \<rparr>]) \<and>
   fst (run_all_and_aggregate ex_add_ids ex_randint
          (Simulator_init 1 empty_first_generator noised_config (Some 7) (Some 0)
             (Some ok_handle) (Some ok_handle) 5 3)) =
     Inr ([\<lparr> num_sets = 1, estimated_cardinality = Fin 1, true_cardinality = 0,
              run_index = 0, relative_error_col = PInf \<rparr>],
          [\<lparr> agg_num_sets = 1,
              agg_estimated_cardinality = \<lparr> mean = Fin 1, std = NaN \<rparr>,
              agg_true_cardinality = \<lparr> mean = Fin 0, std = NaN \<rparr>,
              agg_relative_error = \<lparr> mean = PInf, std = NaN \<rparr> \<rparr>])"
proof -
  let ?df = "[\<lparr> num_sets = 1, estimated_cardinality = Fin 1, true_cardinality = 0,
              run_index = 0, relative_error_col = PInf \<rparr>]"
  let ?agg = "[\<lparr> agg_num_sets = 1,
              agg_estimated_cardinality = \<lparr> mean = Fin 1, std = NaN \<rparr>,
              agg_true_cardinality = \<lparr> mean = Fin 0, std = NaN \<rparr>,
              agg_relative_error = \<lparr> mean = PInf, std = NaN \<rparr> \<rparr>]"
  have one: "fst (run_all_and_aggregate ex_add_ids ex_randint
          (Simulator_init 1 empty_first_generator noised_config (Some 7) (Some 0)
             None None 0 0)) = Inr (?df, ?agg)"
    by (simp add: ex_defs run_defs)
  obtain df' agg' where two: "fst (run_all_and_aggregate ex_add_ids ex_randint
          (Simulator_init 1 empty_first_generator noised_config (Some 7) (Some 0)
             (Some ok_handle) (Some ok_handle) 5 3)) = Inr (df', agg')"
    by (simp add: ex_defs run_defs)
  from C3_same_seeds_same_raw_table [OF one two] have "?df = df' \<and> ?agg = agg'" .
  with one two show ?thesis by simp
qed

section \<open>The rows of the raw table\<close>

text \<open>
  Claim C5, as the code has it. When \<open>run_all_and_aggregate\<close> returns, the number of runs
  is at least one; the raw table is the rows of run \<open>0\<close> in their order, then the rows of run
  \<open>1\<close>, and so on, each with the index of its run; the number of rows is the sum over the
  runs of the number of sets that the generator of the run yielded; and the run indices in
  the table are those of the runs whose generator yielded at least one set, so all of
  \<open>0, ..., R - 1\<close> when every run yields a set.
\<close>

theorem C5_rows_of_the_raw_table:
  assumes "fst (run_all_and_aggregate add_ids randint sim) = Inr (df, df_agg)"
  shows "0 < num_runs sim \<and>
         df = concat (map (\<lambda>t. map (\<lambda>r. with_relative_error (stamp_run_index t r))
                                  (trial_table add_ids randint sim t))
                        [0..<nat (num_runs sim)]) \<and>
         map (\<lambda>r. (run_index r, num_sets r)) df =
           concat (map (\<lambda>t. map (\<lambda>i. (t, i + 1))
                               [0..<length (trial_sets add_ids randint sim t)])
                     [0..<nat (num_runs sim)]) \<and>
         length df =
           sum_list (map (\<lambda>t. length (trial_sets add_ids randint sim t))
                       [0..<nat (num_runs sim)]) \<and>
         run_index ` set df =
           {t. t < nat (num_runs sim) \<and> trial_sets add_ids randint sim t \<noteq> []} \<and>
         ((\<forall>t<nat (num_runs sim). trial_sets add_ids randint sim t \<noteq> []) \<longrightarrow>
            run_index ` set df = {0..<nat (num_runs sim)} \<and>
            card (run_index ` set df) = nat (num_runs sim))"
proof -
  note r = run_all_returns [OF assms]
  have full: "(\<forall>t<nat (num_runs sim). trial_sets add_ids randint sim t \<noteq> []) \<longrightarrow>
      run_index ` set df = {0..<nat (num_runs sim)} \<and>
      card (run_index ` set df) = nat (num_runs sim)"
  proof
    assume a: "\<forall>t<nat (num_runs sim). trial_sets add_ids randint sim t \<noteq> []"
    then have "run_index ` set df = {0..<nat (num_runs sim)}"
      unfolding r(2) run_indices_of_computed_raw by auto
    then show "run_index ` set df = {0..<nat (num_runs sim)} \<and>
        card (run_index ` set df) = nat (num_runs sim)" by simp
  qed
  show ?thesis
    using r(1) full
    by (simp add: r(2) computed_raw_eq [symmetric] indices_of_computed_raw
          length_computed_raw run_indices_of_computed_raw)
qed

text \<open>
  The claim as written says \<open>R\<close> distinct run indices for every \<open>R\<close>. The simulator with
  overlapping sets makes two runs, its first run yields no set, and the raw table has the
  run index \<open>1\<close> only.
\<close>

theorem C5_rows_of_the_raw_table_counterexample:
  "num_runs overlap_sim = 2 \<and>
   fst (run_all_and_aggregate ex_add_ids ex_randint overlap_sim) =
     Inr ([\<lparr> num_sets = 1, estimated_cardinality = Fin 2, true_cardinality = 2,
              run_index = 1, relative_error_col = Fin 0 \<rparr>,
           \<lparr> num_sets = 2, estimated_cardinality = Fin 3, true_cardinality = 3,
              run_index = 1, relative_error_col = Fin 0 \<rparr>],
          [\<lparr> agg_num_sets = 1,
              agg_estimated_cardinality = \<lparr> mean = Fin 2, std = NaN \<rparr>,
              agg_true_cardinality = \<lparr> mean = Fin 2, std = NaN \<rparr>,
              agg_relative_error = \<lparr> mean = Fin 0, std = NaN \<rparr> \<rparr>,
           \<lparr> agg_num_sets = 2,
              agg_estimated_cardinality = \<lparr> mean = Fin 3, std = NaN \<rparr>,
              agg_true_cardinality = \<lparr> mean = Fin 3, std = NaN \<rparr>,
              agg_relative_error = \<lparr> mean = Fin 0, std = NaN \<rparr> \<rparr>]) \<and>
   card (run_index ` set
          [\<lparr> num_sets = 1, estimated_cardinality = Fin 2, true_cardinality = 2,
              run_index = 1, relative_error_col = Fin 0 \<rparr>,
           \<lparr> num_sets = 2, estimated_cardinality = Fin 3, true_cardinality = 3,
              run_index = 1, relative_error_col = Fin 0 \<rparr>]) = 1"
  by (simp add: overlap_sim_result) (simp add: overlap_sim_def Simulator_init_def)

theorem C5_rows_of_the_raw_table_witness:
  "fst (run_all_and_aggregate ex_add_ids ex_randint overlap_sim) =
     Inr ([\<lparr> num_sets = 1, estimated_cardinality = Fin 2, true_cardinality = 2,
              run_index = 1, relative_error_col = Fin 0 \<rparr>,
           \<lparr> num_sets = 2, estimated_cardinality = Fin 3, true_cardinality = 3,
              run_index = 1, relative_error_col = Fin 0 \<rparr>],
          [\<lparr> agg_num_sets = 1,
              agg_estimated_cardinality = \<lparr> mean = Fin 2, std = NaN \<rparr>,
              agg_true_cardinality = \<lparr> mean = Fin 2, std = NaN \<rparr>,
              agg_relative_error = \<lparr> mean = Fin 0, std = NaN \<rparr> \<rparr>,
           \<lparr> agg_num_sets = 2,
              agg_estimated_cardinality = \<lparr> mean = Fin 3, std = NaN \<rparr>,
              agg_true_cardinality = \<lparr> mean = Fin 3, std = NaN \<rparr>,
              agg_relative_error = \<lparr> mean = Fin 0, std = NaN \<rparr> \<rparr>]) \<and>
   sum_list (map (\<lambda>t. length (trial_sets ex_add_ids ex_randint overlap_sim t))
               [0..<nat (num_runs overlap_sim)]) = 2 \<and>
   {t. t < nat (num_runs overlap_sim) \<and> trial_sets ex_add_ids ex_randint overlap_sim t \<noteq> []} =
     {1}"
proof -
  from C5_rows_of_the_raw_table [OF overlap_sim_result]
  show ?thesis by (simp add: overlap_sim_result)
qed

section \<open>Writing the tables\<close>



section \<open>Runs without sets\<close>



section \<open>The aggregated table\<close>

lemma dropna_idem [simp]: "dropna (dropna xs) = dropna xs"
  by (simp add: dropna_def)

lemma dropna_counts [simp]: "dropna (map (\<lambda>r. of_count (f r)) rs) = map (\<lambda>r. of_count (f r)) rs"
  by (induction rs) (simp_all add: dropna_def of_count_def)

lemma pd_mean_eq: "pd_mean xs = arithmetic_mean (dropna xs)"
  by (simp add: pd_mean_def arithmetic_mean_def Let_def fl_sum_def of_count_def)

lemma sample_std_single: "\<not> isnan x \<Longrightarrow> sample_std [x] = NaN"
  by (cases x) (simp_all add: sample_std_def arithmetic_mean_def fl_sum_def of_count_def)

lemma sample_std_short:
  assumes "length (dropna xs) \<le> 1"
  shows "sample_std (dropna xs) = NaN"
proof (cases "dropna xs")
  case Nil
  then show ?thesis by (simp add: sample_std_def fl_sum_def of_count_def)
next
  case (Cons x rest)
  with assms have r: "rest = []" by simp
  have "x \<in> set (dropna xs)" using Cons by simp
  then have "\<not> isnan x" by (simp add: dropna_def)
  then show ?thesis using Cons r by (simp add: sample_std_single)
qed

lemma pd_std_eq: "pd_std xs = sample_std (dropna xs)"
proof (cases "length (dropna xs) \<le> 1")
  case True
  then show ?thesis by (simp add: pd_std_def Let_def sample_std_short)
next
  case False
  then show ?thesis by (simp add: pd_std_def Let_def pd_mean_eq sample_std_def)
qed

lemma mean_std_eq:
  "mean_std xs = \<lparr> mean = arithmetic_mean (dropna xs), std = sample_std (dropna xs) \<rparr>"
  by (simp add: mean_std_def pd_mean_eq pd_std_eq)

lemma keys_of_aggregate: "map agg_num_sets (aggregate df) = sort (remdups (map num_sets df))"
  by (simp add: aggregate_def group_keys_def comp_def)

lemma pd_std_one_row: "length xs = 1 \<Longrightarrow> pd_std xs = NaN"
proof -
  assume "length xs = 1"
  moreover have "length (dropna xs) \<le> length xs" by (simp add: dropna_def)
  ultimately show ?thesis by (simp add: pd_std_def Let_def)
qed

lemma empty_first_sim_result:
  "fst (run_all_and_aggregate ex_add_ids ex_randint empty_first_sim) =
     Inr ([\<lparr> num_sets = 1, estimated_cardinality = Fin 0, true_cardinality = 0,
              run_index = 0, relative_error_col = NaN \<rparr>,
           \<lparr> num_sets = 1, estimated_cardinality = Fin 1, true_cardinality = 1,
              run_index = 1, relative_error_col = Fin 0 \<rparr>],
          [\<lparr> agg_num_sets = 1,
              agg_estimated_cardinality = \<lparr> mean = Fin (1 / 2), std = Fin (sqrt (1 / 2)) \<rparr>,
              agg_true_cardinality = \<lparr> mean = Fin (1 / 2), std = Fin (sqrt (1 / 2)) \<rparr>,
              agg_relative_error = \<lparr> mean = Fin 0, std = NaN \<rparr> \<rparr>])"
  by (simp add: ex_defs run_defs)

text \<open>
  Claim C6, as the code has it. The aggregated table has one row for each value of
  \<open>num_sets\<close> in the raw table. In the row of a value, the mean of a column is the
  arithmetic mean of the values of the column in the raw rows of that value that are not
  not-a-number, and the standard deviation is the sample standard deviation, with the number
  of values minus one as divisor, of these same values; the true cardinalities are counts,
  none of them is left out. The standard deviation is not-a-number when the group has one
  row.
\<close>

theorem C6_aggregated_rows:
  "distinct (map agg_num_sets (aggregate df)) \<and>
   set (map agg_num_sets (aggregate df)) = num_sets ` set df \<and>
   (\<forall>a \<in> set (aggregate df).
      agg_estimated_cardinality a =
        \<lparr> mean = arithmetic_mean
                   (dropna (map estimated_cardinality (group_rows df (agg_num_sets a)))),
          std = sample_std
                  (dropna (map estimated_cardinality (group_rows df (agg_num_sets a)))) \<rparr> \<and>
      agg_true_cardinality a =
        \<lparr> mean = arithmetic_mean
                   (map (\<lambda>r. of_count (true_cardinality r)) (group_rows df (agg_num_sets a))),
          std = sample_std
                  (map (\<lambda>r. of_count (true_cardinality r)) (group_rows df (agg_num_sets a))) \<rparr> \<and>
      agg_relative_error a =
        \<lparr> mean = arithmetic_mean
                   (dropna (map relative_error_col (group_rows df (agg_num_sets a)))),
          std = sample_std
                  (dropna (map relative_error_col (group_rows df (agg_num_sets a)))) \<rparr> \<and>
      (length (group_rows df (agg_num_sets a)) = 1 \<longrightarrow>
         std (agg_estimated_cardinality a) = NaN \<and>
         std (agg_true_cardinality a) = NaN \<and>
         std (agg_relative_error a) = NaN))"
proof (intro conjI ballI impI)
  show "distinct (map agg_num_sets (aggregate df))"
    by (simp add: keys_of_aggregate)
  show "set (map agg_num_sets (aggregate df)) = num_sets ` set df"
    by (simp add: keys_of_aggregate)
next
  fix a assume "a \<in> set (aggregate df)"
  then obtain k where a: "a = \<lparr> agg_num_sets = k,
       agg_estimated_cardinality = mean_std (map estimated_cardinality (group_rows df k)),
       agg_true_cardinality = mean_std (map (\<lambda>r. of_count (true_cardinality r)) (group_rows df k)),
       agg_relative_error = mean_std (map relative_error_col (group_rows df k)) \<rparr>"
    by (auto simp: aggregate_def)
  show "agg_estimated_cardinality a =
        \<lparr> mean = arithmetic_mean
                   (dropna (map estimated_cardinality (group_rows df (agg_num_sets a)))),
          std = sample_std
                  (dropna (map estimated_cardinality (group_rows df (agg_num_sets a)))) \<rparr>"
    by (simp add: a mean_std_eq)
  show "agg_true_cardinality a =
        \<lparr> mean = arithmetic_mean
                   (map (\<lambda>r. of_count (true_cardinality r)) (group_rows df (agg_num_sets a))),
          std = sample_std
                  (map (\<lambda>r. of_count (true_cardinality r)) (group_rows df (agg_num_sets a))) \<rparr>"
    by (simp add: a mean_std_eq)
  show "agg_relative_error a =
        \<lparr> mean = arithmetic_mean
                   (dropna (map relative_error_col (group_rows df (agg_num_sets a)))),
          std = sample_std
                  (dropna (map relative_error_col (group_rows df (agg_num_sets a)))) \<rparr>"
    by (simp add: a mean_std_eq)
  assume one: "length (group_rows df (agg_num_sets a)) = 1"
  then have k1: "length (group_rows df k) = 1" by (simp add: a)
  show "std (agg_estimated_cardinality a) = NaN"
    by (simp add: a mean_std_def pd_std_one_row k1)
  show "std (agg_true_cardinality a) = NaN"
    by (simp add: a mean_std_def pd_std_one_row k1)
  show "std (agg_relative_error a) = NaN"
    by (simp add: a mean_std_def pd_std_one_row k1)
qed

text \<open>
  The claim as written takes the mean over all the raw rows of the group. The simulator
  whose first run yields one empty set has two raw rows with \<open>num_sets = 1\<close>, with the
  relative errors not-a-number and \<open>0\<close>: the aggregated mean is \<open>0\<close>, the mean of the one value
  that is left, where the arithmetic mean of both values is not-a-number.
\<close>

theorem C6_aggregated_rows_counterexample:
  "fst (run_all_and_aggregate ex_add_ids ex_randint empty_first_sim) =
     Inr ([\<lparr> num_sets = 1, estimated_cardinality = Fin 0, true_cardinality = 0,
              run_index = 0, relative_error_col = NaN \<rparr>,
           \<lparr> num_sets = 1, estimated_cardinality = Fin 1, true_cardinality = 1,
              run_index = 1, relative_error_col = Fin 0 \<rparr>],
          [\<lparr> agg_num_sets = 1,
              agg_estimated_cardinality = \<lparr> mean = Fin (1 / 2), std = Fin (sqrt (1 / 2)) \<rparr>,
              agg_true_cardinality = \<lparr> mean = Fin (1 / 2), std = Fin (sqrt (1 / 2)) \<rparr>,
              agg_relative_error = \<lparr> mean = Fin 0, std = NaN \<rparr> \<rparr>]) \<and>
   arithmetic_mean
     (map relative_error_col
        (group_rows
           [\<lparr> num_sets = 1, estimated_cardinality = Fin 0, true_cardinality = 0,
               run_index = 0, relative_error_col = NaN \<rparr>,
            \<lparr> num_sets = 1, estimated_cardinality = Fin 1, true_cardinality = 1,
               run_index = 1, relative_error_col = Fin 0 \<rparr>] 1)) = NaN \<and>
   Fin 0 \<noteq> NaN"
  by (simp add: empty_first_sim_result)
     (simp add: arithmetic_mean_def group_rows_def fl_sum_def)

theorem C6_aggregated_rows_witness:
  "aggregate
     [\<lparr> num_sets = 1, estimated_cardinality = Fin 0, true_cardinality = 0,
         run_index = 0, relative_error_col = NaN \<rparr>,
      \<lparr> num_sets = 1, estimated_cardinality = Fin 1, true_cardinality = 1,
         run_index = 1, relative_error_col = Fin 0 \<rparr>] =
     [\<lparr> agg_num_sets = 1,
         agg_estimated_cardinality = \<lparr> mean = Fin (1 / 2), std = Fin (sqrt (1 / 2)) \<rparr>,
         agg_true_cardinality = \<lparr> mean = Fin (1 / 2), std = Fin (sqrt (1 / 2)) \<rparr>,
         agg_relative_error = \<lparr> mean = Fin 0, std = NaN \<rparr> \<rparr>] \<and>
   agg_relative_error
     \<lparr> agg_num_sets = 1,
       agg_estimated_cardinality = \<lparr> mean = Fin (1 / 2), std = Fin (sqrt (1 / 2)) \<rparr>,
       agg_true_cardinality = \<lparr> mean = Fin (1 / 2), std = Fin (sqrt (1 / 2)) \<rparr>,
       agg_relative_error = \<lparr> mean = Fin 0, std = NaN \<rparr> \<rparr> =
     \<lparr> mean = arithmetic_mean (dropna [NaN, Fin 0]), std = sample_std (dropna [NaN, Fin 0]) \<rparr>"
proof -
  let ?df = "[\<lparr> num_sets = 1, estimated_cardinality = Fin 0, true_cardinality = 0,
         run_index = 0, relative_error_col = NaN \<rparr>,
      \<lparr> num_sets = 1, estimated_cardinality = Fin 1, true_cardinality = 1,
         run_index = 1, relative_error_col = Fin 0 \<rparr>]"
  let ?a = "\<lparr> agg_num_sets = 1,
       agg_estimated_cardinality = \<lparr> mean = Fin (1 / 2), std = Fin (sqrt (1 / 2)) \<rparr>,
       agg_true_cardinality = \<lparr> mean = Fin (1 / 2), std = Fin (sqrt (1 / 2)) \<rparr>,
       agg_relative_error = \<lparr> mean = Fin 0, std = NaN \<rparr> \<rparr>"
  have agg: "aggregate ?df = [?a]"
    by (simp add: run_defs)
  then have mem: "?a \<in> set (aggregate ?df)" by simp
  from C6_aggregated_rows [of ?df] mem
  have "agg_relative_error ?a =
      \<lparr> mean = arithmetic_mean (dropna (map relative_error_col (group_rows ?df (agg_num_sets ?a)))),
        std = sample_std (dropna (map relative_error_col (group_rows ?df (agg_num_sets ?a)))) \<rparr>"
    by blast
  then show ?thesis using agg by (simp add: group_rows_def)
qed

end
